theory Spec2Isabelle
  imports Main "HOL-Library.Sublist" "HOL-Library.Word"
begin

section \<open>The ads.txt crawler: redirect policy, body and header handling\<close>

text \<open>
  The development follows \<^verbatim>\<open>crawler.go\<close>. Go strings are byte strings and are modelled
  as \<^typ>\<open>string\<close>. A Go function returning \<^verbatim>\<open>(T, error)\<close> whose value is dropped on
  error becomes a function into \<^typ>\<open>'e + 'a\<close> with \<open>Inl\<close> for the error. Output
  written with \<^verbatim>\<open>log.Printf\<close> does not influence any returned value and is left out.
\<close>

subsection \<open>Data\<close>

text \<open>The request of the package: the root domain of the original host and the URL
  that is fetched. \<^verbatim>\<open>handleRedirect\<close> and \<^verbatim>\<open>readBody\<close> read the two fields only.\<close>

record Request =
  Domain :: string
  URL :: string

text \<open>The part of \<^verbatim>\<open>http.Response\<close> that the crawler reads. \<^verbatim>\<open>http.Header\<close> is a
  \<^verbatim>\<open>map[string][]string\<close>; the body is a reader whose state has the type \<open>'b\<close>.\<close>

record 'b http_Response =
  Status :: string
  StatusCode :: int
  Header :: "string \<rightharpoonup> string list"
  Body :: 'b

text \<open>The fields of \<^verbatim>\<open>url.URL\<close> that \<^verbatim>\<open>handleRedirect\<close> inspects.\<close>

record url =
  Scheme :: string
  Host :: string

text \<open>Every \<^verbatim>\<open>fmt.Errorf\<close> of the file is one constructor, named after the format
  constant and carrying the arguments in their order. \<open>ErrExpiresHeader\<close> is the
  constant message of \<^verbatim>\<open>parseExpires\<close>; \<open>LibraryError\<close> is an error value handed
  through unchanged from a library call, with its message.\<close>

datatype error =
    ErrRedirectSameDomain string string string
  | ErrFailToParseRedirect string string string string
  | ErrRedirectToDifferentDomain string string string
  | ErrRedirctToInvalidAdsTxt string string string
  | ErrRedirctToMainPage string string string
  | ErrHTTPBadContentType string string
  | ErrExpiresHeader
  | LibraryError string

text \<open>
  The functions that \<^verbatim>\<open>handleRedirect\<close> calls and that are defined elsewhere are
  parameters: \<^verbatim>\<open>rootDomain\<close> of the package (a pair, because the caller reads the
  string of a failed call as well: \<^verbatim>\<open>prevDomain, _ := rootDomain(req.URL)\<close>), and
  \<^verbatim>\<open>url.ParseRequestURI\<close>, \<^verbatim>\<open>url.Parse\<close> and the method \<^verbatim>\<open>Hostname\<close> of
  \<^verbatim>\<open>net/url\<close>. An error of these functions is its message.
\<close>

record deps =
  rootDomain :: "string \<Rightarrow> string \<times> string option"
  ParseRequestURI :: "string \<Rightarrow> string + url"
  Parse :: "string \<Rightarrow> string + url"
  Hostname :: "url \<Rightarrow> string"

subsection \<open>Library functions with a fixed meaning\<close>

text \<open>\<^verbatim>\<open>Header.Get\<close>: the first value stored under the key, the empty string when
  there is none. The keys used by the crawler (\<^verbatim>\<open>Location\<close>, \<^verbatim>\<open>Content-Type\<close>,
  \<^verbatim>\<open>Expires\<close>) are in canonical form already.\<close>

definition Header_Get :: "(string \<rightharpoonup> string list) \<Rightarrow> string \<Rightarrow> string" where
  "Header_Get h key = (case h key of None \<Rightarrow> [] | Some [] \<Rightarrow> [] | Some (v # _) \<Rightarrow> v)"

text \<open>\<^verbatim>\<open>strings.HasSuffix(s, suffix)\<close> is
  \<^verbatim>\<open>len(s) >= len(suffix) && s[len(s)-len(suffix):] == suffix\<close>.\<close>

definition HasSuffix :: "string \<Rightarrow> string \<Rightarrow> bool" where
  "HasSuffix s suf \<longleftrightarrow> length suf \<le> length s \<and> drop (length s - length suf) s = suf"

text \<open>\<^verbatim>\<open>strings.Index(s, substr)\<close>: the index of the first instance of \<open>substr\<close>
  in \<open>s\<close>, or \<open>-1\<close> when there is none.\<close>

fun Index :: "string \<Rightarrow> string \<Rightarrow> int" where
  "Index [] sub = (if sub = [] then 0 else - 1)"
| "Index (c # s) sub =
     (if prefix sub (c # s) then 0
      else (let i = Index s sub in if i = - 1 then - 1 else i + 1))"

subsection \<open>handleRedirect\<close>

text \<open>The checks in the order of the source: the loop check, the root domain of the
  target, the scope rule (the test on \<^verbatim>\<open>prevDomain\<close> nested under
  \<^verbatim>\<open>d != req.Domain\<close> is the conjunction of the two), and, for a target that does not
  end in \<^verbatim>\<open>/ads.txt\<close>, the checks of its shape.\<close>

definition handleRedirect :: "deps \<Rightarrow> Request \<Rightarrow> 'b http_Response \<Rightarrow> error + string" where
  "handleRedirect E req res =
    (let redirect = Header_Get (Header res) ''Location'' in
     if redirect = URL req
     then Inl (ErrRedirectSameDomain (Domain req) (URL req) redirect)
     else
       (case rootDomain E redirect of
          (d, Some err) \<Rightarrow> Inl (ErrFailToParseRedirect (Domain req) (URL req) redirect err)
        | (d, None) \<Rightarrow>
           (let prevDomain = fst (rootDomain E (URL req)) in
            if d \<noteq> Domain req \<and> prevDomain \<noteq> Domain req \<and> prevDomain \<noteq> d
            then Inl (ErrRedirectToDifferentDomain (Domain req) prevDomain d)
            else if \<not> HasSuffix redirect ''/ads.txt''
            then
              (case ParseRequestURI E redirect of
                 Inl _ \<Rightarrow> Inl (ErrRedirctToInvalidAdsTxt (Domain req) (URL req) redirect)
               | Inr _ \<Rightarrow>
                  (case Parse E redirect of
                     Inl _ \<Rightarrow> Inl (ErrRedirctToInvalidAdsTxt (Domain req) (URL req) redirect)
                   | Inr u \<Rightarrow>
                      if Scheme u = [] \<or> Host u = []
                      then Inl (ErrRedirctToInvalidAdsTxt (Domain req) (URL req) redirect)
                      else if Scheme u @ ''://'' @ Hostname E u = redirect
                      then Inl (ErrRedirctToMainPage (Domain req) (URL req) redirect)
                      else Inr redirect))
            else Inr redirect)))"

subsection \<open>readBody\<close>

type_synonym byte = "8 word"

text \<open>\<^verbatim>\<open>ioutil.ReadAll\<close> is a parameter: from the state of the reader it gives the
  bytes read, the error if there is one, and the state the reader is left in. The model
  returns the response together with the result, so that the state of \<^verbatim>\<open>res.Body\<close>
  after the call can be compared with the one before.\<close>

definition readBody ::
  "('b \<Rightarrow> (byte list \<times> string option) \<times> 'b) \<Rightarrow> Request \<Rightarrow> 'b http_Response
     \<Rightarrow> (error + byte list) \<times> 'b http_Response" where
  "readBody ReadAll req res =
    (let contentType = Header_Get (Header res) ''Content-Type'' in
     if Index contentType ''text/plain'' \<noteq> 0
     then (Inl (ErrHTTPBadContentType (URL req) contentType), res)
     else
       (case ReadAll (Body res) of
          ((body, Some err), b) \<Rightarrow> (Inl (LibraryError err), res\<lparr>Body := b\<rparr>)
        | ((body, None), b) \<Rightarrow> (Inr body, res\<lparr>Body := b\<rparr>)))"

subsection \<open>parseExpires\<close>

text \<open>\<^verbatim>\<open>http.ParseTime\<close> is a parameter; \<open>'t\<close> is the type of time stamps. The zero
  \<^verbatim>\<open>time.Time{}\<close> that accompanies an error is not represented.\<close>

definition parseExpires :: "(string \<Rightarrow> string + 't) \<Rightarrow> 'b http_Response \<Rightarrow> error + 't" where
  "parseExpires ParseTime res =
    (let expires = Header_Get (Header res) ''Expires'' in
     if length expires = 0 then Inl ErrExpiresHeader
     else
       (case ParseTime expires of
          Inl err \<Rightarrow> Inl (LibraryError err)
        | Inr parsedHeader \<Rightarrow> Inr parsedHeader))"

subsection \<open>The end of a fetch sequence\<close>

text \<open>The response of the package, with the fields the specification lists for the value
  returned at the end of a sequence (the records are the work of the external parser).\<close>

record 't Response =
  FinalURL :: string
  ResponseStatusCode :: int
  ContentType :: string
  ResponseBody :: "byte list"
  Expires :: "'t option"

text \<open>Modelled from the spec: the function of the package that calls \<^verbatim>\<open>readBody\<close> and
  \<^verbatim>\<open>parseExpires\<close> on a 2xx response is not among the sources. This is FetchSequence,
  steps 5 to 8: validate the content type (the body is not read otherwise), read the full
  body, try to parse the Expires header, leaving \<open>Expires\<close> unset when that fails, and
  return the response.\<close>

definition completeFetch ::
  "('b \<Rightarrow> (byte list \<times> string option) \<times> 'b) \<Rightarrow> (string \<Rightarrow> string + 't) \<Rightarrow> Request
     \<Rightarrow> 'b http_Response \<Rightarrow> error + 't Response" where
  "completeFetch ReadAll ParseTime req res =
    (case readBody ReadAll req res of
       (Inl e, res') \<Rightarrow> Inl e
     | (Inr body, res') \<Rightarrow>
         Inr \<lparr>FinalURL = URL req,
              ResponseStatusCode = StatusCode res',
              ContentType = Header_Get (Header res') ''Content-Type'',
              ResponseBody = body,
              Expires = (case parseExpires ParseTime res' of Inl _ \<Rightarrow> None | Inr t \<Rightarrow> Some t)\<rparr>)"

subsection \<open>Concrete collaborators for the scenarios\<close>

text \<open>The values that the collaborators take on the URLs of the scenarios: the root
  domain of a host \<open>x.example\<close> or \<open>www.x.example\<close> is \<open>x.example\<close>; the two
  bare hosts parse into scheme and host; a string without a scheme is no request URI.
  The hosts carry no port, so that \<^verbatim>\<open>Hostname\<close> is the host.\<close>

definition scenarioRootDomain :: "string \<Rightarrow> string \<times> string option" where
  "scenarioRootDomain u =
    (if u \<in> set [''http://a.example'', ''http://a.example/ads.txt'',
                  ''http://www.a.example/ads.txt'', ''a.example/index.html'']
     then (''a.example'', None)
     else if u \<in> set [''http://b.example'', ''http://b.example/ads.txt'']
     then (''b.example'', None)
     else if u \<in> set [''http://c.example'', ''http://c.example/ads.txt'']
     then (''c.example'', None)
     else ([], Some ''cannot derive the root domain''))"

definition scenarioParse :: "string \<Rightarrow> string + url" where
  "scenarioParse u =
    (if u = ''http://a.example'' then Inr \<lparr>Scheme = ''http'', Host = ''a.example''\<rparr>
     else if u = ''http://c.example'' then Inr \<lparr>Scheme = ''http'', Host = ''c.example''\<rparr>
     else Inl ''invalid URI for request'')"

definition scenarioDeps :: deps where
  "scenarioDeps =
    \<lparr>rootDomain = scenarioRootDomain, ParseRequestURI = scenarioParse,
     Parse = scenarioParse, Hostname = Host\<rparr>"

text \<open>Collaborators that fail on every input.\<close>

definition failingDeps :: deps where
  "failingDeps =
    \<lparr>rootDomain = (\<lambda>u. ([], Some ''cannot derive the root domain'')),
     ParseRequestURI = (\<lambda>u. Inl ''invalid URI for request''),
     Parse = (\<lambda>u. Inl ''invalid URI for request''),
     Hostname = (\<lambda>u. [])\<rparr>"

text \<open>A 302 response with the given Location header, and a response with the given
  status code, headers and body.\<close>

definition redirectTo :: "string \<Rightarrow> unit http_Response" where
  "redirectTo loc =
    \<lparr>Status = ''302 Found'', StatusCode = 302, Header = [''Location'' \<mapsto> [loc]], Body = ()\<rparr>"

text \<open>A reader over the bytes that are left: reading everything returns them and leaves
  none. The only date the time parser of the scenarios knows is the epoch.\<close>

definition bytesReadAll :: "byte list \<Rightarrow> (byte list \<times> string option) \<times> byte list" where
  "bytesReadAll b = ((b, None), [])"

definition scenarioParseTime :: "string \<Rightarrow> string + nat" where
  "scenarioParseTime s =
    (if s = ''Thu, 01 Jan 1970 00:00:00 GMT'' then Inr 0 else Inl ''cannot parse the time'')"

section \<open>Properties\<close>

subsection \<open>Library functions\<close>

lemma Index_ge: "- 1 \<le> Index s sub"
  by (induction s) (simp_all add: Let_def)

lemma Index_eq_0_iff: "Index s sub = 0 \<longleftrightarrow> prefix sub s"
proof (cases s)
  case Nil
  then show ?thesis by simp
next
  case (Cons c t)
  have "Index t sub + 1 \<noteq> 0" if "Index t sub \<noteq> - 1"
    using that Index_ge [of t sub] by arith
  then show ?thesis using Cons by (simp add: Let_def)
qed

lemma HasSuffix_iff: "HasSuffix s suf \<longleftrightarrow> suffix suf s"
proof
  assume "HasSuffix s suf"
  then have "s = take (length s - length suf) s @ suf"
    unfolding HasSuffix_def by (metis append_take_drop_id)
  then show "suffix suf s" by (rule suffixI)
next
  assume "suffix suf s"
  then obtain zs where "s = zs @ suf" by (rule suffixE)
  then show "HasSuffix s suf" by (simp add: HasSuffix_def)
qed

subsection \<open>The redirect policy\<close>

text \<open>
  C3. When the value of the Location header is the very string of the request's current
  URL, \<^verbatim>\<open>handleRedirect\<close> returns the error of a redirect to the same page, whatever
  the original domain and whatever the domains of the two URLs are.
\<close>

theorem handleRedirect_self_redirect:
  assumes "Header_Get (Header res) ''Location'' = URL req"
  shows "handleRedirect E req res =
           Inl (ErrRedirectSameDomain (Domain req) (URL req) (Header_Get (Header res) ''Location''))"
  using assms by (simp add: handleRedirect_def Let_def)

theorem handleRedirect_self_redirect_witness:
  "handleRedirect scenarioDeps \<lparr>Domain = ''a.example'', URL = ''http://b.example/ads.txt''\<rparr>
     (redirectTo ''http://b.example/ads.txt'') =
   Inl (ErrRedirectSameDomain ''a.example'' ''http://b.example/ads.txt''
          ''http://b.example/ads.txt'')"
  using handleRedirect_self_redirect
    [of "redirectTo ''http://b.example/ads.txt''"
        "\<lparr>Domain = ''a.example'', URL = ''http://b.example/ads.txt''\<rparr>" scenarioDeps]
  by (simp add: redirectTo_def Header_Get_def)

text \<open>
  C9. The comparison with the current URL comes first. When the Location value is the
  current URL the result is the error of a redirect to the same page and no other one,
  and it is the same under all collaborators: also under those for which the root domain
  of the target cannot be derived, the scope rule is violated, or the target does not
  parse or looks like a homepage.
\<close>

theorem handleRedirect_loop_first:
  assumes "Header_Get (Header res) ''Location'' = URL req"
  shows "handleRedirect E req res = Inl (ErrRedirectSameDomain (Domain req) (URL req) (URL req))
       \<and> (\<forall>E'. handleRedirect E' req res = handleRedirect E req res)
       \<and> (\<forall>a b c e. handleRedirect E req res \<noteq> Inl (ErrFailToParseRedirect a b c e))
       \<and> (\<forall>a b c. handleRedirect E req res \<noteq> Inl (ErrRedirectToDifferentDomain a b c))
       \<and> (\<forall>a b c. handleRedirect E req res \<noteq> Inl (ErrRedirctToInvalidAdsTxt a b c))
       \<and> (\<forall>a b c. handleRedirect E req res \<noteq> Inl (ErrRedirctToMainPage a b c))"
  using assms by (simp add: handleRedirect_def Let_def)

theorem handleRedirect_loop_first_witness:
  "handleRedirect failingDeps \<lparr>Domain = ''a.example'', URL = ''http://c.example''\<rparr>
     (redirectTo ''http://c.example'') =
   Inl (ErrRedirectSameDomain ''a.example'' ''http://c.example'' ''http://c.example'')
   \<and> handleRedirect scenarioDeps \<lparr>Domain = ''a.example'', URL = ''http://c.example''\<rparr>
     (redirectTo ''http://c.example'') =
   handleRedirect failingDeps \<lparr>Domain = ''a.example'', URL = ''http://c.example''\<rparr>
     (redirectTo ''http://c.example'')"
proof -
  let ?req = "\<lparr>Domain = ''a.example'', URL = ''http://c.example''\<rparr>"
  let ?res = "redirectTo ''http://c.example''"
  have loc: "Header_Get (Header ?res) ''Location'' = URL ?req"
    by (simp add: redirectTo_def Header_Get_def)
  note first = handleRedirect_loop_first [OF loc, of failingDeps]
  from first have "handleRedirect failingDeps ?req ?res =
      Inl (ErrRedirectSameDomain ''a.example'' ''http://c.example'' ''http://c.example'')"
    by simp
  moreover from first have "handleRedirect scenarioDeps ?req ?res =
      handleRedirect failingDeps ?req ?res"
    by blast
  ultimately show ?thesis by blast
qed

subsection \<open>The scope rule\<close>

text \<open>What \<^verbatim>\<open>handleRedirect\<close> returns once the target differs from the current URL and its
  root domain has been derived.\<close>

lemma handleRedirect_resolved:
  assumes "Header_Get (Header res) ''Location'' \<noteq> URL req"
    and "rootDomain E (Header_Get (Header res) ''Location'') = (d, None)"
  shows "handleRedirect E req res =
    (let redirect = Header_Get (Header res) ''Location'';
         prevDomain = fst (rootDomain E (URL req)) in
     if d \<noteq> Domain req \<and> prevDomain \<noteq> Domain req \<and> prevDomain \<noteq> d
     then Inl (ErrRedirectToDifferentDomain (Domain req) prevDomain d)
     else if \<not> HasSuffix redirect ''/ads.txt''
     then
       (case ParseRequestURI E redirect of
          Inl _ \<Rightarrow> Inl (ErrRedirctToInvalidAdsTxt (Domain req) (URL req) redirect)
        | Inr _ \<Rightarrow>
           (case Parse E redirect of
              Inl _ \<Rightarrow> Inl (ErrRedirctToInvalidAdsTxt (Domain req) (URL req) redirect)
            | Inr u \<Rightarrow>
               if Scheme u = [] \<or> Host u = []
               then Inl (ErrRedirctToInvalidAdsTxt (Domain req) (URL req) redirect)
               else if Scheme u @ ''://'' @ Hostname E u = redirect
               then Inl (ErrRedirctToMainPage (Domain req) (URL req) redirect)
               else Inr redirect))
     else Inr redirect)"
  using assms by (simp add: handleRedirect_def Let_def)

lemma handleRedirect_scope_error_iff:
  assumes "rootDomain E (Header_Get (Header res) ''Location'') = (d, None)"
  shows "(\<exists>a b c. handleRedirect E req res = Inl (ErrRedirectToDifferentDomain a b c)) \<longleftrightarrow>
         d \<noteq> Domain req \<and> fst (rootDomain E (URL req)) \<noteq> Domain req
           \<and> fst (rootDomain E (URL req)) \<noteq> d"
proof (cases "Header_Get (Header res) ''Location'' = URL req")
  case True
  with assms have "fst (rootDomain E (URL req)) = d" by simp
  moreover have "handleRedirect E req res
      = Inl (ErrRedirectSameDomain (Domain req) (URL req) (URL req))"
    using True by (simp add: handleRedirect_def Let_def)
  ultimately show ?thesis by simp
next
  case False
  show ?thesis
    unfolding handleRedirect_resolved [OF False assms]
    by (simp add: Let_def split: sum.split)
qed

text \<open>
  C1. Let the root domain \<open>d\<close> of the target be derived. The redirect is rejected for
  leaving the scope a second time exactly when \<open>d\<close> differs from the original domain,
  the root domain of the URL redirected from differs from the original domain too, and
  \<open>d\<close> differs from that previous root domain; the error then names the three domains.
  In every other case the scope rule rejects nothing.
\<close>

theorem handleRedirect_scope_rule:
  assumes "rootDomain E (Header_Get (Header res) ''Location'') = (d, None)"
  shows "((\<exists>a b c. handleRedirect E req res = Inl (ErrRedirectToDifferentDomain a b c)) \<longleftrightarrow>
          d \<noteq> Domain req \<and> fst (rootDomain E (URL req)) \<noteq> Domain req
            \<and> d \<noteq> fst (rootDomain E (URL req)))
       \<and> (d \<noteq> Domain req \<and> fst (rootDomain E (URL req)) \<noteq> Domain req
            \<and> d \<noteq> fst (rootDomain E (URL req)) \<longrightarrow>
          handleRedirect E req res =
            Inl (ErrRedirectToDifferentDomain (Domain req) (fst (rootDomain E (URL req))) d))"
proof -
  have "handleRedirect E req res =
          Inl (ErrRedirectToDifferentDomain (Domain req) (fst (rootDomain E (URL req))) d)"
    if "d \<noteq> Domain req" "fst (rootDomain E (URL req)) \<noteq> Domain req"
       "d \<noteq> fst (rootDomain E (URL req))"
  proof -
    have "Header_Get (Header res) ''Location'' \<noteq> URL req"
      using assms that(3) by auto
    from handleRedirect_resolved [OF this assms] that show ?thesis
      by (simp add: Let_def)
  qed
  with handleRedirect_scope_error_iff [OF assms, of req] show ?thesis by auto
qed

theorem handleRedirect_scope_rule_witness:
  "handleRedirect scenarioDeps \<lparr>Domain = ''a.example'', URL = ''http://b.example/ads.txt''\<rparr>
     (redirectTo ''http://c.example/ads.txt'') =
   Inl (ErrRedirectToDifferentDomain ''a.example'' ''b.example'' ''c.example'')"
  using handleRedirect_scope_rule
    [of scenarioDeps "redirectTo ''http://c.example/ads.txt''" "''c.example''"
        "\<lparr>Domain = ''a.example'', URL = ''http://b.example/ads.txt''\<rparr>"]
  by (simp add: redirectTo_def Header_Get_def scenarioDeps_def scenarioRootDomain_def)

text \<open>
  C7, as the code has it. Let the sequence be off the original domain (the root domain of
  the URL redirected from differs from it) and let the root domain \<open>d\<close> of the target
  differ from that of the preceding hop. When \<open>d\<close> differs from the original domain as
  well, the redirect is rejected. When \<open>d\<close> is the original domain (the way back,
  A to B to A), the scope rule does not reject it, and a target that ends in
  \<^verbatim>\<open>/ads.txt\<close> is followed.
\<close>

theorem handleRedirect_off_domain:
  assumes "rootDomain E (Header_Get (Header res) ''Location'') = (d, None)"
    and "fst (rootDomain E (URL req)) \<noteq> Domain req"
    and "d \<noteq> fst (rootDomain E (URL req))"
  shows "(d \<noteq> Domain req \<longrightarrow>
            handleRedirect E req res =
              Inl (ErrRedirectToDifferentDomain (Domain req) (fst (rootDomain E (URL req))) d))
       \<and> (d = Domain req \<longrightarrow>
            (\<forall>a b c. handleRedirect E req res \<noteq> Inl (ErrRedirectToDifferentDomain a b c))
          \<and> (HasSuffix (Header_Get (Header res) ''Location'') ''/ads.txt'' \<longrightarrow>
               handleRedirect E req res = Inr (Header_Get (Header res) ''Location'')))"
proof -
  have "Header_Get (Header res) ''Location'' \<noteq> URL req"
    using assms(1,3) by auto
  note body = handleRedirect_resolved [OF this assms(1)]
  show ?thesis
    unfolding body using assms(2,3) by (simp add: Let_def split: sum.split)
qed

theorem handleRedirect_off_domain_witness:
  "handleRedirect scenarioDeps \<lparr>Domain = ''a.example'', URL = ''http://b.example/ads.txt''\<rparr>
     (redirectTo ''http://c.example'') =
   Inl (ErrRedirectToDifferentDomain ''a.example'' ''b.example'' ''c.example'')
   \<and> handleRedirect scenarioDeps \<lparr>Domain = ''a.example'', URL = ''http://b.example''\<rparr>
     (redirectTo ''http://a.example/ads.txt'') = Inr ''http://a.example/ads.txt''"
  using
    handleRedirect_off_domain
      [of scenarioDeps "redirectTo ''http://c.example''" "''c.example''"
          "\<lparr>Domain = ''a.example'', URL = ''http://b.example/ads.txt''\<rparr>"]
    handleRedirect_off_domain
      [of scenarioDeps "redirectTo ''http://a.example/ads.txt''" "''a.example''"
          "\<lparr>Domain = ''a.example'', URL = ''http://b.example''\<rparr>"]
  by (simp add: redirectTo_def Header_Get_def scenarioDeps_def scenarioRootDomain_def
      HasSuffix_def)

text \<open>
  C7, as the claim has it, fails: the request for \<open>a.example\<close> stands at
  \<open>b.example\<close>, off the original domain, the target lies on \<open>a.example\<close>, which
  is not the domain of the preceding hop, and the redirect is followed.
\<close>

theorem bounce_back_is_followed:
  "fst (rootDomain scenarioDeps ''http://b.example/ads.txt'') \<noteq> ''a.example''
   \<and> fst (rootDomain scenarioDeps ''http://a.example/ads.txt'')
       \<noteq> fst (rootDomain scenarioDeps ''http://b.example/ads.txt'')
   \<and> handleRedirect scenarioDeps \<lparr>Domain = ''a.example'', URL = ''http://b.example/ads.txt''\<rparr>
       (redirectTo ''http://a.example/ads.txt'') = Inr ''http://a.example/ads.txt''"
  by (simp add: handleRedirect_def redirectTo_def Header_Get_def scenarioDeps_def
      scenarioRootDomain_def HasSuffix_def Let_def)

subsection \<open>Loops\<close>

text \<open>
  C2, as the code has it. A redirect that \<^verbatim>\<open>handleRedirect\<close> allows goes to the value
  of the Location header, and that value is not the URL the request stands at: no URL
  is fetched twice in a row.
\<close>

theorem handleRedirect_target_differs:
  assumes "handleRedirect E req res = Inr t"
  shows "t = Header_Get (Header res) ''Location'' \<and> t \<noteq> URL req"
  using assms
  by (auto simp add: handleRedirect_def Let_def
      split: if_splits prod.splits option.splits sum.splits)

theorem handleRedirect_target_differs_witness:
  "handleRedirect scenarioDeps \<lparr>Domain = ''a.example'', URL = ''http://a.example''\<rparr>
     (redirectTo ''http://a.example/ads.txt'') = Inr ''http://a.example/ads.txt''
   \<and> ''http://a.example/ads.txt'' \<noteq> ''http://a.example''"
proof -
  let ?req = "\<lparr>Domain = ''a.example'', URL = ''http://a.example''\<rparr>"
  let ?res = "redirectTo ''http://a.example/ads.txt''"
  have allowed: "handleRedirect scenarioDeps ?req ?res = Inr ''http://a.example/ads.txt''"
    by (simp add: handleRedirect_def redirectTo_def Header_Get_def scenarioDeps_def
        scenarioRootDomain_def HasSuffix_def Let_def)
  from handleRedirect_target_differs [OF allowed] allowed show ?thesis by simp
qed

text \<open>
  C2, as the claim has it, fails on a cycle of two URLs: from
  \<open>http://a.example/ads.txt\<close> the redirect to \<open>http://www.a.example/ads.txt\<close> is
  allowed, and from there the redirect back is allowed too. The decision depends on the
  request's domain, its current URL and the response only, so the third hop is the
  first one again.
\<close>

theorem redirect_cycle_is_followed:
  "handleRedirect scenarioDeps \<lparr>Domain = ''a.example'', URL = ''http://a.example/ads.txt''\<rparr>
     (redirectTo ''http://www.a.example/ads.txt'') = Inr ''http://www.a.example/ads.txt''
   \<and> handleRedirect scenarioDeps
       \<lparr>Domain = ''a.example'', URL = ''http://www.a.example/ads.txt''\<rparr>
       (redirectTo ''http://a.example/ads.txt'') = Inr ''http://a.example/ads.txt''"
  by (simp add: handleRedirect_def redirectTo_def Header_Get_def scenarioDeps_def
      scenarioRootDomain_def HasSuffix_def Let_def)

subsection \<open>The shape of the target\<close>

text \<open>
  C10. A target that ends in \<^verbatim>\<open>/ads.txt\<close>, differs from the current URL, has a root
  domain and passes the scope rule is allowed, and the Location value is returned as it
  is. The result is the same whatever \<^verbatim>\<open>url.ParseRequestURI\<close>, \<^verbatim>\<open>url.Parse\<close> and
  \<^verbatim>\<open>Hostname\<close> would say: the target is neither parsed nor compared with a homepage.
\<close>

theorem handleRedirect_ads_txt_allowed:
  assumes "HasSuffix (Header_Get (Header res) ''Location'') ''/ads.txt''"
    and "Header_Get (Header res) ''Location'' \<noteq> URL req"
    and "rootDomain E (Header_Get (Header res) ''Location'') = (d, None)"
    and "d = Domain req \<or> fst (rootDomain E (URL req)) = Domain req
           \<or> fst (rootDomain E (URL req)) = d"
  shows "handleRedirect E req res = Inr (Header_Get (Header res) ''Location'')
       \<and> handleRedirect (E\<lparr>ParseRequestURI := p, Parse := q, Hostname := h\<rparr>) req res
           = Inr (Header_Get (Header res) ''Location'')"
  using assms by (auto simp add: handleRedirect_def Let_def)

theorem handleRedirect_ads_txt_allowed_witness:
  "handleRedirect scenarioDeps \<lparr>Domain = ''a.example'', URL = ''http://a.example''\<rparr>
     (redirectTo ''http://b.example/ads.txt'') = Inr ''http://b.example/ads.txt''
   \<and> handleRedirect
       (scenarioDeps\<lparr>ParseRequestURI := ParseRequestURI failingDeps,
          Parse := Parse failingDeps, Hostname := Hostname failingDeps\<rparr>)
       \<lparr>Domain = ''a.example'', URL = ''http://a.example''\<rparr>
       (redirectTo ''http://b.example/ads.txt'') = Inr ''http://b.example/ads.txt''"
proof -
  let ?req = "\<lparr>Domain = ''a.example'', URL = ''http://a.example''\<rparr>"
  let ?res = "redirectTo ''http://b.example/ads.txt''"
  have loc: "Header_Get (Header ?res) ''Location'' = ''http://b.example/ads.txt''"
    by (simp add: redirectTo_def Header_Get_def)
  have 1: "HasSuffix (Header_Get (Header ?res) ''Location'') ''/ads.txt''"
    unfolding loc by (simp add: HasSuffix_def)
  have 2: "Header_Get (Header ?res) ''Location'' \<noteq> URL ?req"
    unfolding loc by simp
  have 3: "rootDomain scenarioDeps (Header_Get (Header ?res) ''Location'')
             = (''b.example'', None)"
    unfolding loc by (simp add: scenarioDeps_def scenarioRootDomain_def)
  have 4: "''b.example'' = Domain ?req
           \<or> fst (rootDomain scenarioDeps (URL ?req)) = Domain ?req
           \<or> fst (rootDomain scenarioDeps (URL ?req)) = ''b.example''"
    by (simp add: scenarioDeps_def scenarioRootDomain_def)
  from handleRedirect_ads_txt_allowed [OF 1 2 3 4] show ?thesis
    unfolding loc by simp
qed

text \<open>
  C4, as the code has it. Let the target differ from the current URL, have a root domain,
  pass the scope rule and not end in \<^verbatim>\<open>/ads.txt\<close>. When it is accepted by
  \<^verbatim>\<open>url.ParseRequestURI\<close>, parses with a scheme and a host and is the string scheme,
  \<^verbatim>\<open>://\<close>, host name, it is rejected as a redirect to a homepage. When
  \<^verbatim>\<open>url.ParseRequestURI\<close> or \<^verbatim>\<open>url.Parse\<close> fails on it, or it parses without a
  scheme or without a host, it is rejected as an invalid target.
\<close>

theorem handleRedirect_target_shape:
  assumes "Header_Get (Header res) ''Location'' \<noteq> URL req"
    and "rootDomain E (Header_Get (Header res) ''Location'') = (d, None)"
    and "d = Domain req \<or> fst (rootDomain E (URL req)) = Domain req
           \<or> fst (rootDomain E (URL req)) = d"
    and "\<not> HasSuffix (Header_Get (Header res) ''Location'') ''/ads.txt''"
  shows "(\<forall>v u. ParseRequestURI E (Header_Get (Header res) ''Location'') = Inr v
             \<and> Parse E (Header_Get (Header res) ''Location'') = Inr u
             \<and> Scheme u \<noteq> [] \<and> Host u \<noteq> []
             \<and> Header_Get (Header res) ''Location'' = Scheme u @ ''://'' @ Hostname E u \<longrightarrow>
           handleRedirect E req res =
             Inl (ErrRedirctToMainPage (Domain req) (URL req)
                    (Header_Get (Header res) ''Location'')))
       \<and> (isl (ParseRequestURI E (Header_Get (Header res) ''Location''))
            \<or> isl (Parse E (Header_Get (Header res) ''Location''))
            \<or> (\<exists>u. Parse E (Header_Get (Header res) ''Location'') = Inr u
                  \<and> (Scheme u = [] \<or> Host u = [])) \<longrightarrow>
           handleRedirect E req res =
             Inl (ErrRedirctToInvalidAdsTxt (Domain req) (URL req)
                    (Header_Get (Header res) ''Location'')))"
proof -
  note body = handleRedirect_resolved [OF assms(1,2)]
  show ?thesis
    unfolding body using assms(3,4)
    by (auto simp add: Let_def isl_def split: sum.split)
qed

theorem handleRedirect_target_shape_witness:
  "handleRedirect scenarioDeps \<lparr>Domain = ''a.example'', URL = ''http://a.example/ads.txt''\<rparr>
     (redirectTo ''http://a.example'') =
   Inl (ErrRedirctToMainPage ''a.example'' ''http://a.example/ads.txt'' ''http://a.example'')
   \<and> handleRedirect scenarioDeps \<lparr>Domain = ''a.example'', URL = ''http://a.example/ads.txt''\<rparr>
     (redirectTo ''a.example/index.html'') =
   Inl (ErrRedirctToInvalidAdsTxt ''a.example'' ''http://a.example/ads.txt''
          ''a.example/index.html'')"
  using
    handleRedirect_target_shape
      [of "redirectTo ''http://a.example''"
          "\<lparr>Domain = ''a.example'', URL = ''http://a.example/ads.txt''\<rparr>"
          scenarioDeps "''a.example''"]
    handleRedirect_target_shape
      [of "redirectTo ''a.example/index.html''"
          "\<lparr>Domain = ''a.example'', URL = ''http://a.example/ads.txt''\<rparr>"
          scenarioDeps "''a.example''"]
  by (simp add: redirectTo_def Header_Get_def scenarioDeps_def scenarioRootDomain_def
      scenarioParse_def HasSuffix_def)

text \<open>
  C4, as the claim has it, fails when an earlier check rejects the target: the target
  \<open>http://c.example\<close> does not end in \<^verbatim>\<open>/ads.txt\<close>, parses with scheme and host and
  is scheme, \<^verbatim>\<open>://\<close>, host, but the request for \<open>a.example\<close> stands at
  \<open>b.example\<close> and the redirect is rejected by the scope rule, not as a homepage.
\<close>

theorem homepage_target_scope_error:
  "\<not> HasSuffix ''http://c.example'' ''/ads.txt''
   \<and> ParseRequestURI scenarioDeps ''http://c.example''
       = Inr \<lparr>Scheme = ''http'', Host = ''c.example''\<rparr>
   \<and> Parse scenarioDeps ''http://c.example'' = Inr \<lparr>Scheme = ''http'', Host = ''c.example''\<rparr>
   \<and> ''http'' @ ''://'' @ Hostname scenarioDeps \<lparr>Scheme = ''http'', Host = ''c.example''\<rparr>
       = ''http://c.example''
   \<and> handleRedirect scenarioDeps \<lparr>Domain = ''a.example'', URL = ''http://b.example/ads.txt''\<rparr>
       (redirectTo ''http://c.example'') =
     Inl (ErrRedirectToDifferentDomain ''a.example'' ''b.example'' ''c.example'')
   \<and> handleRedirect scenarioDeps \<lparr>Domain = ''a.example'', URL = ''http://b.example/ads.txt''\<rparr>
       (redirectTo ''http://c.example'') \<noteq>
     Inl (ErrRedirctToMainPage ''a.example'' ''http://b.example/ads.txt'' ''http://c.example'')"
  by (simp add: handleRedirect_def redirectTo_def Header_Get_def scenarioDeps_def
      scenarioRootDomain_def scenarioParse_def HasSuffix_def Let_def)

subsection \<open>The body and the Expires header\<close>

text \<open>
  C5. When the value of the Content-Type header does not begin with \<^verbatim>\<open>text/plain\<close>
  (the empty value of an absent header included), \<^verbatim>\<open>readBody\<close> returns the error of a
  bad content type, whatever the status of the response is, and leaves the response
  with its body as it was: the reader is not called.
\<close>

theorem readBody_bad_content_type:
  assumes "\<not> prefix ''text/plain'' (Header_Get (Header res) ''Content-Type'')"
  shows "readBody ReadAll req res =
           (Inl (ErrHTTPBadContentType (URL req) (Header_Get (Header res) ''Content-Type'')),
            res)"
  using assms by (simp add: readBody_def Let_def Index_eq_0_iff)

theorem readBody_bad_content_type_witness:
  "readBody bytesReadAll \<lparr>Domain = ''a.example'', URL = ''http://a.example/ads.txt''\<rparr>
     \<lparr>Status = ''200 OK'', StatusCode = 200,
      Header = [''Content-Type'' \<mapsto> [''application/octet-stream'']], Body = [0x67, 0x6F]\<rparr> =
   (Inl (ErrHTTPBadContentType ''http://a.example/ads.txt'' ''application/octet-stream''),
    \<lparr>Status = ''200 OK'', StatusCode = 200,
      Header = [''Content-Type'' \<mapsto> [''application/octet-stream'']], Body = [0x67, 0x6F]\<rparr>)
   \<and> readBody bytesReadAll \<lparr>Domain = ''a.example'', URL = ''http://a.example/ads.txt''\<rparr>
     \<lparr>Status = ''200 OK'', StatusCode = 200, Header = Map.empty, Body = [0x67, 0x6F]\<rparr> =
   (Inl (ErrHTTPBadContentType ''http://a.example/ads.txt'' []),
    \<lparr>Status = ''200 OK'', StatusCode = 200, Header = Map.empty, Body = [0x67, 0x6F]\<rparr>)"
  using
    readBody_bad_content_type
      [of "\<lparr>Status = ''200 OK'', StatusCode = 200,
            Header = [''Content-Type'' \<mapsto> [''application/octet-stream'']],
            Body = [0x67, 0x6F]\<rparr>"
          bytesReadAll "\<lparr>Domain = ''a.example'', URL = ''http://a.example/ads.txt''\<rparr>"]
    readBody_bad_content_type
      [of "\<lparr>Status = ''200 OK'', StatusCode = 200, Header = Map.empty,
            Body = [0x67, 0x6F]\<rparr>"
          bytesReadAll "\<lparr>Domain = ''a.example'', URL = ''http://a.example/ads.txt''\<rparr>"]
  by (simp add: Header_Get_def)

text \<open>
  C6. Let the Expires header be missing or not be a date for \<^verbatim>\<open>http.ParseTime\<close>. Then
  \<^verbatim>\<open>parseExpires\<close> returns an error, and the sequence ends as \<^verbatim>\<open>readBody\<close> ends: with
  an error only when \<^verbatim>\<open>readBody\<close> returns that error, and otherwise with a response
  that carries the body read and has no \<open>Expires\<close>.
\<close>

theorem completeFetch_expires_not_fatal:
  assumes "Header_Get (Header res) ''Expires'' = []
           \<or> isl (ParseTime (Header_Get (Header res) ''Expires''))"
  shows "isl (parseExpires ParseTime res)
       \<and> (\<forall>e. completeFetch ReadAll ParseTime req res = Inl e
                \<longleftrightarrow> fst (readBody ReadAll req res) = Inl e)
       \<and> (\<forall>body. fst (readBody ReadAll req res) = Inr body \<longrightarrow>
            (\<exists>r. completeFetch ReadAll ParseTime req res = Inr r
                 \<and> ResponseBody r = body \<and> Expires r = None \<and> FinalURL r = URL req))"
proof -
  have header: "Header (snd (readBody ReadAll req res)) = Header res"
    by (simp add: readBody_def Let_def split: prod.split option.split)
  have fails: "isl (parseExpires ParseTime r)" if "Header r = Header res" for r :: "'a http_Response"
    using assms that by (auto simp add: parseExpires_def Let_def isl_def split: sum.split)
  from fails [of res] have "isl (parseExpires ParseTime res)" by simp
  moreover from fails [OF header]
  have "isl (parseExpires ParseTime (snd (readBody ReadAll req res)))" .
  then have "completeFetch ReadAll ParseTime req res =
      (case fst (readBody ReadAll req res) of
         Inl e \<Rightarrow> Inl e
       | Inr body \<Rightarrow>
           Inr \<lparr>FinalURL = URL req,
                ResponseStatusCode = StatusCode (snd (readBody ReadAll req res)),
                ContentType = Header_Get (Header (snd (readBody ReadAll req res))) ''Content-Type'',
                ResponseBody = body, Expires = None\<rparr>)"
    by (auto simp add: completeFetch_def isl_def split: prod.split sum.split)
  then have "(\<forall>e. completeFetch ReadAll ParseTime req res = Inl e
                \<longleftrightarrow> fst (readBody ReadAll req res) = Inl e)
       \<and> (\<forall>body. fst (readBody ReadAll req res) = Inr body \<longrightarrow>
            (\<exists>r. completeFetch ReadAll ParseTime req res = Inr r
                 \<and> ResponseBody r = body \<and> Expires r = None \<and> FinalURL r = URL req))"
    by (simp split: sum.split)
  ultimately show ?thesis by blast
qed

theorem completeFetch_expires_not_fatal_witness:
  "completeFetch bytesReadAll scenarioParseTime
     \<lparr>Domain = ''a.example'', URL = ''http://a.example/ads.txt''\<rparr>
     \<lparr>Status = ''200 OK'', StatusCode = 200,
      Header = [''Content-Type'' \<mapsto> [''text/plain'']], Body = [0x67, 0x6F]\<rparr> =
   Inr \<lparr>FinalURL = ''http://a.example/ads.txt'', ResponseStatusCode = 200,
        ContentType = ''text/plain'', ResponseBody = [0x67, 0x6F],
        Expires = (None :: nat option)\<rparr>"
proof -
  let ?req = "\<lparr>Domain = ''a.example'', URL = ''http://a.example/ads.txt''\<rparr>"
  let ?res = "\<lparr>Status = ''200 OK'', StatusCode = 200,
      Header = [''Content-Type'' \<mapsto> [''text/plain'']], Body = [0x67, 0x6F :: byte]\<rparr>"
  have missing: "Header_Get (Header ?res) ''Expires'' = []
      \<or> isl (scenarioParseTime (Header_Get (Header ?res) ''Expires''))"
    by (simp add: Header_Get_def)
  have read: "fst (readBody bytesReadAll ?req ?res) = Inr [0x67, 0x6F]"
    by (simp add: readBody_def Header_Get_def bytesReadAll_def Let_def)
  from completeFetch_expires_not_fatal [of ?res scenarioParseTime bytesReadAll ?req, OF missing]
    read
  obtain r where r: "completeFetch bytesReadAll scenarioParseTime ?req ?res = Inr r"
    and "ResponseBody r = [0x67, 0x6F]" "Expires r = None"
    by blast
  moreover have "ResponseStatusCode r = 200 \<and> ContentType r = ''text/plain''
      \<and> FinalURL r = ''http://a.example/ads.txt''"
    using r by (auto simp add: completeFetch_def readBody_def Header_Get_def bytesReadAll_def
        Let_def)
  ultimately show ?thesis by (cases r) simp
qed

end
